theory Spec2Isabelle
  imports Complex_Main "HOL-Library.Char_ord" "HOL-Library.List_Lexorder"
begin

section \<open>The audit reporter (audit.py): data model\<close>

text \<open>
  The program reads transactions from PDF pages, CSV rows or a manually edited grid, keeps
  those whose date lies in a window, and writes a report. This theory embeds its functions
  as HOL functions, one per source function, with the source's names.

  Modelling decisions, fixed here once:
  \<^item> Python \<open>str\<close> in the pipeline is \<open>string\<close> (a list of 8-bit characters, a
    character beyond ASCII being its UTF-8 bytes); whitespace and \<open>lower\<close> are those of
    the ASCII range, \<open>upper\<close> of a string with a character beyond ASCII is the host's.
    Only \<open>clean_text\<close>, whose job is to remove characters beyond Latin-1, works on lists
    of Unicode code points.
  \<^item> Python \<open>float\<close> is \<open>pyfloat\<close>: a rational or NaN. The product of the ratio test,
    \<open>amount * 0.3\<close>, is rounded to the nearest double as the machine does; the sums
    and the ratios of the period metrics are exact, and the infinities are not modelled.
  \<^item> An exception is a value of type \<open>error\<close>; a function that can raise returns
    \<open>error + 'a\<close>, with \<open>Inl\<close> the exception.
  \<^item> What the host supplies (the clock, \<open>float\<close> of a string, \<open>str\<close> of a float,
    \<open>hash\<close>, \<open>upper\<close> beyond ASCII) is the record \<open>host\<close>, a parameter of the
    functions that use it; the report takes the clock's text for its footer as an
    argument.
  \<^item> The libraries that read files and draw pages are outside: an extractor starts from
    the page texts or the rows, and of \<open>create_pdf\<close> the sanitization and the temporary
    file are embedded.
\<close>

datatype error =
    KeyError string
  | ValueError string
  | TypeError string
  | IOError string

datatype pyfloat = Fin rat | NaN

text \<open>
  Rounding to the nearest double, ties to even: a double has 53 significant bits, so a
  value between \<open>2 ^ e\<close> and \<open>2 ^ (e + 1)\<close> is rounded to a multiple of
  \<open>2 ^ (e - 52)\<close>, and below \<open>2 ^ (- 1022)\<close> to a multiple of \<open>2 ^ (- 1074)\<close>. The
  exponent is found by halving or doubling, at most 1100 times: enough for every double.
  Overflow is left out: the product that is rounded has the factor 0.3.
\<close>

definition pow2 :: "int \<Rightarrow> rat" where
  "pow2 e = (if 0 \<le> e then 2 ^ nat e else 1 / 2 ^ nat (- e))"

fun scale_exp :: "nat \<Rightarrow> rat \<Rightarrow> int \<Rightarrow> int" where
  "scale_exp 0 x e = e"
| "scale_exp (Suc n) x e =
     (if 2 \<le> x then scale_exp n (x / 2) (e + 1)
      else if x < 1 then scale_exp n (x * 2) (e - 1)
      else e)"

definition exponent :: "rat \<Rightarrow> int" where
  "exponent x = max (scale_exp 1100 \<bar>x\<bar> 0) (- 1022)"

definition round_half_even :: "rat \<Rightarrow> int" where
  "round_half_even y =
     (let f = \<lfloor>y\<rfloor>; r = y - of_int f
      in if r < 1 / 2 then f else if 1 / 2 < r then f + 1 else if even f then f else f + 1)"

definition round_double :: "rat \<Rightarrow> rat" where
  "round_double x =
     (if x = 0 then 0
      else of_int (round_half_even (x / pow2 (exponent x - 52))) * pow2 (exponent x - 52))"

text \<open>The literal \<open>0.3\<close> is the double nearest to three tenths.\<close>

definition three_tenths :: rat where
  "three_tenths = 5404319552844595 / 2 ^ 54"

text \<open>Comparison \<open>a > b\<close>, product and sum of floats: any comparison with NaN is false,
  any arithmetic with NaN is NaN.\<close>

fun fgt :: "pyfloat \<Rightarrow> pyfloat \<Rightarrow> bool" where
  "fgt (Fin a) (Fin b) = (b < a)"
| "fgt _ _ = False"

fun fmul :: "pyfloat \<Rightarrow> pyfloat \<Rightarrow> pyfloat" where
  "fmul (Fin a) (Fin b) = Fin (round_double (a * b))"
| "fmul _ _ = NaN"

fun fadd :: "pyfloat \<Rightarrow> pyfloat \<Rightarrow> pyfloat" where
  "fadd (Fin a) (Fin b) = Fin (a + b)"
| "fadd _ _ = NaN"

text \<open>
  What the host gives: the clock (\<open>datetime.now().strftime("%Y-%m-%d")\<close>), \<open>float\<close> of a
  string (None when it raises ValueError), \<open>str\<close> of a finite float, \<open>hash\<close> of a string,
  and \<open>str.upper\<close> of a string that has a character beyond ASCII. The theorems hold for
  every host.
\<close>

record host =
  today :: string
  float_of_str :: "string \<Rightarrow> pyfloat option"
  str_of_float :: "rat \<Rightarrow> string"
  hash :: "string \<Rightarrow> int"
  str_upper :: "string \<Rightarrow> string"

text \<open>\<open>class Document\<close>: six fields, no validation. The fields \<open>id\<close> and \<open>type\<close> are
  \<open>doc_id\<close> and \<open>doc_type\<close> here.\<close>

record Document =
  doc_id :: string
  date :: string
  vendor :: string
  amount :: pyfloat
  gst :: pyfloat
  doc_type :: string

subsection \<open>Strings\<close>

text \<open>\<open>s.startswith(p)\<close>, \<open>x in s\<close> and \<open>s.replace(old, new)\<close> (all occurrences, left to
  right, not overlapping; an empty \<open>old\<close> matches before every character and at the end).\<close>

fun startswith :: "'a list \<Rightarrow> 'a list \<Rightarrow> bool" where
  "startswith s [] = True"
| "startswith [] (p # ps) = False"
| "startswith (c # cs) (p # ps) = (c = p \<and> startswith cs ps)"

fun str_in :: "'a list \<Rightarrow> 'a list \<Rightarrow> bool" where
  "str_in x [] = (x = [])"
| "str_in x (c # cs) = (startswith (c # cs) x \<or> str_in x cs)"

fun replace :: "'a list \<Rightarrow> 'a list \<Rightarrow> 'a list \<Rightarrow> 'a list" where
  "replace [] new s = new @ concat (map (\<lambda>c. c # new) s)"
| "replace (a # old) new [] = []"
| "replace (a # old) new (c # cs) =
     (if startswith (c # cs) (a # old) then new @ replace (a # old) new (drop (length old) cs)
      else c # replace (a # old) new cs)"

text \<open>\<open>s.split(sep)\<close> for a one-character separator: always at least one piece.\<close>

fun split :: "'a \<Rightarrow> 'a list \<Rightarrow> 'a list list" where
  "split sep [] = [[]]"
| "split sep (c # cs) =
     (if c = sep then [] # split sep cs
      else (case split sep cs of [] \<Rightarrow> [[c]] | l # ls \<Rightarrow> (c # l) # ls))"

definition isspace :: "char \<Rightarrow> bool" where
  "isspace c = (c \<in> set [CHR '' '', CHR 0x09, CHR 0x0A, CHR 0x0B, CHR 0x0C, CHR 0x0D,
                            CHR 0x1C, CHR 0x1D, CHR 0x1E, CHR 0x1F])"

definition strip :: "string \<Rightarrow> string" where
  "strip s = rev (dropWhile isspace (rev (dropWhile isspace s)))"

definition char_upper :: "char \<Rightarrow> char" where
  "char_upper c =
     (case map_of (zip ''abcdefghijklmnopqrstuvwxyz'' ''ABCDEFGHIJKLMNOPQRSTUVWXYZ'') c of
        Some u \<Rightarrow> u | None \<Rightarrow> c)"

definition char_lower :: "char \<Rightarrow> char" where
  "char_lower c =
     (case map_of (zip ''ABCDEFGHIJKLMNOPQRSTUVWXYZ'' ''abcdefghijklmnopqrstuvwxyz'') c of
        Some l \<Rightarrow> l | None \<Rightarrow> c)"

text \<open>\<open>s.upper()\<close>: the ASCII letters of an ASCII string; what the host says of any
  other string.\<close>

definition isascii :: "string \<Rightarrow> bool" where
  "isascii s = list_all (\<lambda>c. of_char c < (128 :: nat)) s"

definition upper :: "host \<Rightarrow> string \<Rightarrow> string" where
  "upper h s = (if isascii s then map char_upper s else str_upper h s)"

definition lower :: "string \<Rightarrow> string" where
  "lower s = map char_lower s"

subsection \<open>Dates\<close>

text \<open>\<open>datetime.date\<close>: compared by year, then month, then day.\<close>

record pydate =
  year :: nat
  month :: nat
  day :: nat

definition date_le :: "pydate \<Rightarrow> pydate \<Rightarrow> bool" where
  "date_le a b =
     (year a < year b \<or>
      (year a = year b \<and> (month a < month b \<or> (month a = month b \<and> day a \<le> day b))))"

definition is_leap :: "nat \<Rightarrow> bool" where
  "is_leap y = (y mod 4 = 0 \<and> (y mod 100 \<noteq> 0 \<or> y mod 400 = 0))"

definition days_in_month :: "nat \<Rightarrow> nat \<Rightarrow> nat" where
  "days_in_month y m =
     (if m = 2 then (if is_leap y then 29 else 28)
      else if m \<in> set [4, 6, 9, 11] then 30 else 31)"

definition toordinal :: "pydate \<Rightarrow> int" where
  "toordinal d =
     (let y = year d - 1
      in int (365 * y + y div 4 + y div 400) - int (y div 100)
         + int (sum_list (map (days_in_month (year d)) [1 ..< month d]))
         + int (day d))"

text \<open>\<open>(end_date - start_date).days + 1\<close>\<close>

definition duration_of :: "pydate \<Rightarrow> pydate \<Rightarrow> int" where
  "duration_of start_date end_date = toordinal end_date - toordinal start_date + 1"

text \<open>
  \<open>datetime.strptime(s, "%Y-%m-%d").date()\<close>. The directives are regular expressions:
  \<open>%Y\<close> is four digits, \<open>%m\<close> is \<open>1[0-2]|0[1-9]|[1-9]\<close>, \<open>%d\<close> is
  \<open>3[01]|[12]\d|0[1-9]|[1-9]| [1-9]\<close>; the alternatives are tried in this order. A
  month alternative that matches and is not followed by \<open>-\<close> leaves no later
  alternative that is, so taking the first match is exact. Text left over after the day,
  year 0 and a day beyond the month's length raise ValueError: the result is None.
\<close>

definition isdigit :: "char \<Rightarrow> bool" where
  "isdigit c = (c \<in> set ''0123456789'')"

definition digit :: "char \<Rightarrow> nat" where
  "digit c = of_char c - 48"

fun strptime_Y :: "string \<Rightarrow> (nat \<times> string) option" where
  "strptime_Y (a # b # c # d # r) =
     (if isdigit a \<and> isdigit b \<and> isdigit c \<and> isdigit d
      then Some (1000 * digit a + 100 * digit b + 10 * digit c + digit d, r) else None)"
| "strptime_Y _ = None"

fun strptime_m :: "string \<Rightarrow> (nat \<times> string) option" where
  "strptime_m (a # b # r) =
     (if a = CHR ''1'' \<and> b \<in> set ''012'' then Some (10 + digit b, r)
      else if a = CHR ''0'' \<and> b \<in> set ''123456789'' then Some (digit b, r)
      else if a \<in> set ''123456789'' then Some (digit a, b # r)
      else None)"
| "strptime_m [a] = (if a \<in> set ''123456789'' then Some (digit a, []) else None)"
| "strptime_m [] = None"

fun strptime_d :: "string \<Rightarrow> (nat \<times> string) option" where
  "strptime_d (a # b # r) =
     (if a = CHR ''3'' \<and> b \<in> set ''01'' then Some (30 + digit b, r)
      else if a \<in> set ''12'' \<and> isdigit b then Some (10 * digit a + digit b, r)
      else if a = CHR ''0'' \<and> b \<in> set ''123456789'' then Some (digit b, r)
      else if a \<in> set ''123456789'' then Some (digit a, b # r)
      else if a = CHR '' '' \<and> b \<in> set ''123456789'' then Some (digit b, r)
      else None)"
| "strptime_d [a] = (if a \<in> set ''123456789'' then Some (digit a, []) else None)"
| "strptime_d [] = None"

fun expect :: "char \<Rightarrow> string \<Rightarrow> string option" where
  "expect c [] = None"
| "expect c (a # r) = (if a = c then Some r else None)"

definition strptime :: "string \<Rightarrow> pydate option" where
  "strptime s =
     (case strptime_Y s of None \<Rightarrow> None | Some (y, r1) \<Rightarrow>
     (case expect CHR ''-'' r1 of None \<Rightarrow> None | Some r2 \<Rightarrow>
     (case strptime_m r2 of None \<Rightarrow> None | Some (m, r3) \<Rightarrow>
     (case expect CHR ''-'' r3 of None \<Rightarrow> None | Some r4 \<Rightarrow>
     (case strptime_d r4 of None \<Rightarrow> None | Some (d, r5) \<Rightarrow>
        if r5 = [] \<and> 1 \<le> y \<and> d \<le> days_in_month y m
        then Some \<lparr>year = y, month = m, day = d\<rparr> else None)))))"

section \<open>The aggregator: \<open>generate_audit_report\<close>, lines 219 to 236\<close>

text \<open>The date filter: a document stays when its date parses and lies in the closed
  window; a date that does not parse is skipped by the bare \<open>except\<close>.\<close>

definition in_window :: "pydate \<Rightarrow> pydate \<Rightarrow> Document \<Rightarrow> bool" where
  "in_window start_date end_date doc =
     (case strptime (date doc) of
        None \<Rightarrow> False
      | Some doc_date \<Rightarrow> date_le start_date doc_date \<and> date_le doc_date end_date)"

definition filtered_docs :: "pydate \<Rightarrow> pydate \<Rightarrow> Document list \<Rightarrow> Document list" where
  "filtered_docs start_date end_date documents =
     filter (in_window start_date end_date) documents"

text \<open>
  \<open>df[df['type'] == t]['amount'].sum()\<close> on the frame built from the filtered documents.
  The frame of an empty list has no columns at all, so \<open>df['type']\<close> raises
  \<open>KeyError: 'type'\<close>; on a frame with rows the sum skips NaN and is 0 for no rows.
\<close>

fun sum_skipna :: "pyfloat list \<Rightarrow> rat" where
  "sum_skipna [] = 0"
| "sum_skipna (Fin a # xs) = a + sum_skipna xs"
| "sum_skipna (NaN # xs) = sum_skipna xs"

definition rows_of_type :: "string \<Rightarrow> Document list \<Rightarrow> Document list" where
  "rows_of_type t df = filter (\<lambda>d. doc_type d = t) df"

definition amount_sum :: "string \<Rightarrow> Document list \<Rightarrow> error + rat" where
  "amount_sum t df =
     (if df = [] then Inl (KeyError ''type'')
      else Inr (sum_skipna (map amount (rows_of_type t df))))"

record metrics =
  total_invoices :: nat
  total_income :: rat
  total_expense :: rat
  net_balance :: rat
  expense_ratio :: rat
  profit_margin :: rat
  duration_days :: int

definition period_metrics ::
  "pydate \<Rightarrow> pydate \<Rightarrow> Document list \<Rightarrow> error + metrics" where
  "period_metrics start_date end_date documents =
     (let df = filtered_docs start_date end_date documents in
      case amount_sum ''income'' df of Inl e \<Rightarrow> Inl e | Inr income \<Rightarrow>
     (case amount_sum ''expense'' df of Inl e \<Rightarrow> Inl e | Inr expense \<Rightarrow>
        Inr \<lparr>total_invoices = length df,
             total_income = income,
             total_expense = expense,
             net_balance = income - expense,
             expense_ratio = (if income > 0 then (expense / income) * 100 else 0),
             profit_margin = (if income > 0 then (income - expense) / income * 100 else 0),
             duration_days = duration_of start_date end_date\<rparr>))"

subsection \<open>Vendor rankings and vendor concentration\<close>

text \<open>
  \<open>frame.groupby('vendor')['amount'].sum().nlargest(3)\<close>: the groups come in the sorted
  order of their keys, each sum skips NaN, and \<open>nlargest\<close> keeps the first of equal
  sums, largest first.
\<close>

definition groupby_sum :: "Document list \<Rightarrow> (string \<times> rat) list" where
  "groupby_sum frame =
     map (\<lambda>v. (v, sum_skipna (map amount (filter (\<lambda>d. vendor d = v) frame))))
         (sort (remdups (map vendor frame)))"

definition nlargest :: "nat \<Rightarrow> (string \<times> rat) list \<Rightarrow> (string \<times> rat) list" where
  "nlargest n xs = take n (sort_key (\<lambda>(v, a). - a) xs)"

text \<open>
  \<open>df['vendor'].value_counts()\<close>, then \<open>idxmax()\<close> and \<open>max()\<close>: the counts in descending
  order, and the first vendor that reaches the largest count. Among vendors with equal
  counts the order is that of first appearance here; the library does not promise one.
\<close>

definition value_counts :: "string list \<Rightarrow> (string \<times> nat) list" where
  "value_counts vs =
     sort_key (\<lambda>(v, c). - int c)
       (map (\<lambda>v. (v, count_list vs v)) (rev (remdups (rev vs))))"

definition count_max :: "(string \<times> nat) list \<Rightarrow> nat" where
  "count_max vc = fold max (map snd vc) 0"

definition idxmax :: "(string \<times> nat) list \<Rightarrow> string" where
  "idxmax vc = fst (hd (filter (\<lambda>(v, c). c = count_max vc) vc))"

subsection \<open>GST compliance\<close>

text \<open>Lines 270 to 281: the documents with \<open>gst > 0\<close>, their summed gst (the builtin
  \<open>sum\<close>, which starts from 0 and does not skip NaN), and the findings: per document,
  first the id check, then the ratio check.\<close>

datatype frag =
    Txt string          \<comment> \<open>literal text or a \<open>str\<close> value\<close>
  | Money pyfloat       \<comment> \<open>\<open>{x:,.2f}\<close>\<close>
  | Pct rat             \<comment> \<open>\<open>{x:.1f}\<close>\<close>
  | Repr pyfloat        \<comment> \<open>\<open>{x}\<close> of a float\<close>
  | Num int             \<comment> \<open>\<open>{n}\<close> of an int\<close>
  | Iso pydate          \<comment> \<open>\<open>{d}\<close> of a date\<close>

type_synonym line = "frag list"

definition gst_docs_of :: "Document list \<Rightarrow> Document list" where
  "gst_docs_of df = filter (\<lambda>doc. fgt (gst doc) (Fin 0)) df"

definition total_gst_of :: "Document list \<Rightarrow> pyfloat" where
  "total_gst_of gst_docs = foldl fadd (Fin 0) (map gst gst_docs)"

definition id_has_token :: "host \<Rightarrow> string \<Rightarrow> bool" where
  "id_has_token h i = list_ex (\<lambda>x. str_in x (upper h i)) [''GST'', ''INV'', ''BILL'']"

definition issues_of :: "host \<Rightarrow> Document \<Rightarrow> line list" where
  "issues_of h doc =
     (if \<not> id_has_token h (doc_id doc)
      then [[Txt ''Invalid document ID: '', Txt (doc_id doc)]] else [])
     @ (if fgt (gst doc) (fmul (amount doc) (Fin three_tenths))
        then [[Txt ''Unusual GST amount: Rs.'', Repr (gst doc), Txt '' on Rs.'',
               Repr (amount doc)]]
        else [])"

definition gst_issues_of :: "host \<Rightarrow> Document list \<Rightarrow> line list" where
  "gst_issues_of h gst_docs = concat (map (issues_of h) gst_docs)"

section \<open>The report: \<open>generate_audit_report\<close>, lines 238 to 317\<close>

text \<open>
  The report is the list of its lines, joined by newlines in the source; a line is the
  list of the pieces an f-string puts together, numbers kept with their format. Each
  section below is the run of \<open>report +=\<close> statements under one comment of the source.
\<close>

definition executive_summary :: "string \<Rightarrow> pydate \<Rightarrow> pydate \<Rightarrow> metrics \<Rightarrow> line list" where
  "executive_summary business_name start_date end_date m =
     [[Txt ''# '', Txt business_name, Txt '' - Audit Report''],
      [Txt ''## Period: '', Iso start_date, Txt '' to '', Iso end_date, Txt '' ('',
       Num (duration_days m), Txt '' days)''],
      [],
      [Txt ''## Executive Summary''],
      [],
      [Txt ''- **Financial Overview**: Net balance of Rs.'', Money (Fin (net_balance m)),
       Txt '' (Income: Rs.'', Money (Fin (total_income m)),
       Txt '', Expenses: Rs.'', Money (Fin (total_expense m)), Txt '')''],
      [Txt ''- **Profit Margin**: '', Pct (profit_margin m), Txt ''%''],
      [Txt ''- **Expense Ratio**: '', Pct (expense_ratio m), Txt ''% of income''],
      [Txt ''- **Transactions Processed**: '', Num (int (total_invoices m))],
      []]"

definition vendor_line :: "string \<times> rat \<Rightarrow> line" where
  "vendor_line va = [Txt ''- '', Txt (fst va), Txt '': Rs.'', Money (Fin (snd va))]"

definition cash_flow :: "Document list \<Rightarrow> line list" where
  "cash_flow df =
     [[Txt ''## Cash Flow Analysis''], []]
     @ (if df \<noteq> [] then
          (let income_df = rows_of_type ''income'' df in
           if income_df \<noteq> []
           then [Txt ''### Income Sources''] # map vendor_line (nlargest 3 (groupby_sum income_df))
           else [])
          @ (let expense_df = rows_of_type ''expense'' df in
             if expense_df \<noteq> []
             then [[], [Txt ''### Major Expenses'']]
                  @ map vendor_line (nlargest 3 (groupby_sum expense_df))
             else [])
        else [])"

definition issue_line :: "line \<Rightarrow> line" where
  "issue_line issue = Txt ''- '' # issue"

definition gst_compliance :: "host \<Rightarrow> Document list \<Rightarrow> line list" where
  "gst_compliance h df =
     [[], [Txt ''## GST Compliance''], []]
     @ (let gst_docs = gst_docs_of df in
        if gst_docs \<noteq> [] then
          [[Txt ''- **Total GST Processed**: Rs.'', Money (total_gst_of gst_docs)]]
          @ (let gst_issues = gst_issues_of h gst_docs in
             if gst_issues \<noteq> []
             then [[], [Txt ''### GST Issues'']] @ map issue_line (take 3 gst_issues)
             else [])
        else [[Txt ''- No GST-related transactions found'']])"

definition ai_insights :: "Document list \<Rightarrow> metrics \<Rightarrow> line list" where
  "ai_insights df m =
     [[], [Txt ''## AI Insights''], []]
     @ (if df \<noteq> [] then
          (let vendor_counts = value_counts (map vendor df) in
           if length vendor_counts > 0
           then [[Txt ''- **Vendor Concentration**: '', Txt (idxmax vendor_counts),
                  Txt '' appears '', Num (int (count_max vendor_counts)), Txt '' times'']]
           else [])
          @ (if expense_ratio m > 70
             then [[Txt ''- **Cost Alert**: High expense ratio ('', Pct (expense_ratio m),
                    Txt ''%)'']]
             else [])
        else [])"

definition recommendations :: "Document list \<Rightarrow> metrics \<Rightarrow> string list \<Rightarrow> line list" where
  "recommendations df m risk_flags =
     [[], [Txt ''## Recommendations''], [], [Txt ''### Immediate Actions'']]
     @ (if gst_docs_of df \<noteq> [] then [[Txt ''- Reconcile GST input credits'']] else [])
     @ (if risk_flags \<noteq> [] then [[Txt ''- Address compliance flags'']] else [])
     @ [[], [Txt ''### Strategic Actions'']]
     @ (if profit_margin m < 15 then [[Txt ''- Review pricing strategy'']] else [])
     @ (if length df > 50
        then [[Txt ''- Consider accounting software for better tracking'']] else [])"

text \<open>The function itself; \<open>now\<close> is the clock's text for the footer. The only statement
  that can raise is the first column selection, inside \<open>period_metrics\<close>.\<close>

definition generate_audit_report ::
  "host \<Rightarrow> string \<Rightarrow> string \<Rightarrow> pydate \<Rightarrow> pydate \<Rightarrow> Document list \<Rightarrow> string list
     \<Rightarrow> error + line list" where
  "generate_audit_report h now business_name start_date end_date documents risk_flags =
     (let df = filtered_docs start_date end_date documents in
      case period_metrics start_date end_date documents of
        Inl e \<Rightarrow> Inl e
      | Inr m \<Rightarrow>
          Inr (executive_summary business_name start_date end_date m
               @ cash_flow df
               @ gst_compliance h df
               @ ai_insights df m
               @ recommendations df m risk_flags
               @ [[], [Txt ''*Report generated on '', Txt now, Txt ''*'']]))"

section \<open>The extractors\<close>

text \<open>\<open>str\<close> of an int.\<close>

fun str_nat :: "nat \<Rightarrow> string" where
  "str_nat n =
     (if n < 10 then [char_of (48 + n)] else str_nat (n div 10) @ [char_of (48 + n mod 10)])"

declare str_nat.simps [simp del]

definition str_int :: "int \<Rightarrow> string" where
  "str_int i = (if i < 0 then CHR ''-'' # str_nat (nat (- i)) else str_nat (nat i))"

subsection \<open>\<open>extract_data_from_pdf\<close>\<close>

text \<open>
  The argument is the text of each page, in order (the library that opens the file and
  extracts the text is outside). The loop over the lines of a page updates four
  variables; \<open>float\<close> on a \<open>Total:\<close> or \<open>GST:\<close> line can raise, and nothing catches it
  inside the function.
\<close>

record page_fields =
  pf_vendor :: string
  pf_date :: string
  pf_amount :: pyfloat
  pf_gst :: pyfloat

text \<open>\<open>line.replace(label, "").replace(rupee, "").replace(",", "").strip()\<close>, the rupee
  sign (U+20B9) as its three UTF-8 bytes.\<close>

definition number_text :: "string \<Rightarrow> string \<Rightarrow> string" where
  "number_text label l =
     strip (replace '','' [] (replace [CHR 0xE2, CHR 0x82, CHR 0xB9] [] (replace label [] l)))"

definition to_float :: "host \<Rightarrow> string \<Rightarrow> error + pyfloat" where
  "to_float h s = (case float_of_str h s of None \<Rightarrow> Inl (ValueError s) | Some x \<Rightarrow> Inr x)"

definition scan_line :: "host \<Rightarrow> page_fields \<Rightarrow> string \<Rightarrow> error + page_fields" where
  "scan_line h f l =
     (if str_in ''Vendor:'' l then Inr (f\<lparr>pf_vendor := strip (replace ''Vendor:'' [] l)\<rparr>)
      else if str_in ''Date:'' l then Inr (f\<lparr>pf_date := strip (replace ''Date:'' [] l)\<rparr>)
      else if str_in ''Total:'' l then
        (case to_float h (number_text ''Total:'' l) of
           Inl e \<Rightarrow> Inl e | Inr x \<Rightarrow> Inr (f\<lparr>pf_amount := x\<rparr>))
      else if str_in ''GST:'' l then
        (case to_float h (number_text ''GST:'' l) of
           Inl e \<Rightarrow> Inl e | Inr x \<Rightarrow> Inr (f\<lparr>pf_gst := x\<rparr>))
      else Inr f)"

fun scan_lines :: "host \<Rightarrow> page_fields \<Rightarrow> string list \<Rightarrow> error + page_fields" where
  "scan_lines h f [] = Inr f"
| "scan_lines h f (l # ls) =
     (case scan_line h f l of Inl e \<Rightarrow> Inl e | Inr f' \<Rightarrow> scan_lines h f' ls)"

definition page_document :: "host \<Rightarrow> string \<Rightarrow> error + Document" where
  "page_document h text =
     (case scan_lines h \<lparr>pf_vendor = ''Unknown'', pf_date = today h,
                          pf_amount = Fin 0, pf_gst = Fin 0\<rparr>
                       (split CHR 0x0A text) of
        Inl e \<Rightarrow> Inl e
      | Inr f \<Rightarrow>
          Inr \<lparr>doc_id = ''PDF-'' @ str_int (hash h text mod 1000000),
               date = pf_date f, vendor = pf_vendor f,
               amount = pf_amount f, gst = pf_gst f,
               doc_type = (if str_in ''Invoice'' text then ''expense'' else ''income'')\<rparr>)"

fun extract_pages :: "host \<Rightarrow> Document list \<Rightarrow> string list \<Rightarrow> error + Document list" where
  "extract_pages h documents [] = Inr documents"
| "extract_pages h documents (text # pages) =
     (case page_document h text of
        Inl e \<Rightarrow> Inl e
      | Inr doc \<Rightarrow> extract_pages h (documents @ [doc]) pages)"

definition extract_data_from_pdf :: "host \<Rightarrow> string list \<Rightarrow> error + Document list" where
  "extract_data_from_pdf h pages = extract_pages h [] pages"

subsection \<open>\<open>extract_data_from_csv\<close>\<close>

text \<open>
  A cell of a frame read from a file holds text, an int, a float or a bool; an empty
  field is the float NaN. (\<open>CNone\<close> is Python's \<open>None\<close>, which only the edited grid
  of the manual channel can hold.) \<open>str\<close> of a cell never raises, \<open>float\<close> of a cell
  does for text that is no number and for \<open>None\<close>.
\<close>

datatype cell = CText string | CInt int | CFloat pyfloat | CBool bool | CNone

fun str_cell :: "host \<Rightarrow> cell \<Rightarrow> string" where
  "str_cell h (CText s) = s"
| "str_cell h (CInt i) = str_int i"
| "str_cell h (CFloat (Fin x)) = str_of_float h x"
| "str_cell h (CFloat NaN) = ''nan''"
| "str_cell h (CBool b) = (if b then ''True'' else ''False'')"
| "str_cell h CNone = ''None''"

fun float_cell :: "host \<Rightarrow> cell \<Rightarrow> error + pyfloat" where
  "float_cell h (CText s) = to_float h s"
| "float_cell h (CInt i) = Inr (Fin (of_int i))"
| "float_cell h (CFloat x) = Inr x"
| "float_cell h (CBool b) = Inr (Fin (if b then 1 else 0))"
| "float_cell h CNone = Inl (TypeError ''NoneType'')"

text \<open>A row is the list of its (column, cell) pairs; \<open>row.get(key, default)\<close> gives the
  default only when the row has no such column.\<close>

type_synonym row = "(string \<times> cell) list"

definition row_get :: "row \<Rightarrow> string \<Rightarrow> cell \<Rightarrow> cell" where
  "row_get r key dflt = (case map_of r key of Some c \<Rightarrow> c | None \<Rightarrow> dflt)"

text \<open>The body of the \<open>try\<close>: the six arguments are evaluated in the order written, so
  the first exception is that of \<open>amount\<close>, then that of \<open>gst\<close>.\<close>

definition csv_document :: "host \<Rightarrow> nat \<Rightarrow> row \<Rightarrow> error + Document" where
  "csv_document h i r =
     (case float_cell h (row_get r ''amount'' (CInt 0)) of Inl e \<Rightarrow> Inl e | Inr a \<Rightarrow>
     (case float_cell h (row_get r ''gst'' (CInt 0)) of Inl e \<Rightarrow> Inl e | Inr g \<Rightarrow>
        Inr \<lparr>doc_id = str_cell h (row_get r ''id''
                         (row_get r ''invoice_no'' (CText (''CSV-'' @ str_nat i)))),
             date = str_cell h (row_get r ''date'' (CText (today h))),
             vendor = str_cell h (row_get r ''vendor'' (CText ''Unknown'')),
             amount = a, gst = g,
             doc_type = lower (str_cell h (row_get r ''type'' (CText ''expense'')))\<rparr>))"

text \<open>The loop over \<open>df.iterrows()\<close>: the result is the documents and the warnings
  (row index and exception), each in row order.\<close>

fun extract_rows ::
  "host \<Rightarrow> (nat \<times> row) list \<Rightarrow> Document list \<times> (nat \<times> error) list" where
  "extract_rows h [] = ([], [])"
| "extract_rows h ((i, r) # rest) =
     (case csv_document h i r of
        Inl e \<Rightarrow> (fst (extract_rows h rest), (i, e) # snd (extract_rows h rest))
      | Inr doc \<Rightarrow> (doc # fst (extract_rows h rest), snd (extract_rows h rest)))"

definition iterrows :: "row list \<Rightarrow> (nat \<times> row) list" where
  "iterrows df = zip [0 ..< length df] df"

definition extract_data_from_csv ::
  "host \<Rightarrow> row list \<Rightarrow> Document list \<times> (nat \<times> error) list" where
  "extract_data_from_csv h df = extract_rows h (iterrows df)"

subsection \<open>Manual entry: \<open>main\<close>, lines 401 to 413\<close>

text \<open>\<open>row['ID']\<close> raises KeyError when the grid has no such column; every exception of
  the body is caught and the row skipped.\<close>

definition row_item :: "row \<Rightarrow> string \<Rightarrow> error + cell" where
  "row_item r key = (case map_of r key of Some c \<Rightarrow> Inr c | None \<Rightarrow> Inl (KeyError key))"

definition manual_document :: "host \<Rightarrow> row \<Rightarrow> error + Document" where
  "manual_document h r =
     (case row_item r ''ID'' of Inl e \<Rightarrow> Inl e | Inr i \<Rightarrow>
     (case row_item r ''Date'' of Inl e \<Rightarrow> Inl e | Inr d \<Rightarrow>
     (case row_item r ''Vendor'' of Inl e \<Rightarrow> Inl e | Inr v \<Rightarrow>
     (case row_item r ''Amount'' of Inl e \<Rightarrow> Inl e | Inr a \<Rightarrow>
     (case float_cell h a of Inl e \<Rightarrow> Inl e | Inr a' \<Rightarrow>
     (case row_item r ''GST'' of Inl e \<Rightarrow> Inl e | Inr g \<Rightarrow>
     (case float_cell h g of Inl e \<Rightarrow> Inl e | Inr g' \<Rightarrow>
     (case row_item r ''Type'' of Inl e \<Rightarrow> Inl e | Inr t \<Rightarrow>
        Inr \<lparr>doc_id = str_cell h i, date = str_cell h d, vendor = str_cell h v,
             amount = a', gst = g', doc_type = lower (str_cell h t)\<rparr>))))))))"

fun manual_rows :: "host \<Rightarrow> row list \<Rightarrow> Document list \<times> error list" where
  "manual_rows h [] = ([], [])"
| "manual_rows h (r # rest) =
     (case manual_document h r of
        Inl e \<Rightarrow> (fst (manual_rows h rest), e # snd (manual_rows h rest))
      | Inr doc \<Rightarrow> (doc # fst (manual_rows h rest), snd (manual_rows h rest)))"

section \<open>The document renderer: \<open>create_pdf\<close>\<close>

subsection \<open>\<open>clean_text\<close>\<close>

text \<open>
  Here a string is the list of its Unicode code points. The dictionary is walked in the
  order it is written, one \<open>replace\<close> per entry; then
  \<open>encode('latin-1', 'replace').decode('latin-1')\<close> turns every code point above 255
  into a question mark. Neither step can raise.
\<close>

type_synonym ustring = "nat list"

definition ascii :: "string \<Rightarrow> ustring" where
  "ascii s = map of_char s"

definition replacements :: "(ustring \<times> ustring) list" where
  "replacements =
     [([0x1F4CA], ascii ''[REPORT]''), ([0x1F4C5], ascii ''[DATE]''),
      ([0x1F4CC], ascii ''[SUMMARY]''), ([0x1F4C8], ascii ''[ANALYSIS]''),
      ([0x1F9FE], ascii ''[GST]''), ([0x1F916], ascii ''[AI]''),
      ([0x2705], ascii ''[CHECK]''), ([0x20B9], ascii ''Rs.''),
      ([0x2018], [0x27]), ([0x2019], [0x27]),
      ([0x201C], [0x22]), ([0x201D], [0x22]),
      ([0x2013], ascii ''-''), ([0x2014], ascii ''-''), ([0x2026], ascii ''...'')]"

definition latin1_replace :: "ustring \<Rightarrow> ustring" where
  "latin1_replace text = map (\<lambda>c. if c < 256 then c else 0x3F) text"

definition clean_text :: "ustring \<Rightarrow> ustring" where
  "clean_text text =
     latin1_replace (foldl (\<lambda>text (k, v). replace k v text) text replacements)"

subsection \<open>The temporary file\<close>

text \<open>
  \<open>create_pdf\<close> ends by creating a named temporary file that is not deleted on close,
  writing the document to it and returning its path (lines 211 to 214). The state is the
  set of temporary files that exist; the fresh path is the host's choice, and \<open>output\<close>
  is the outcome of writing the document, after the file exists.
\<close>

definition create_pdf ::
  "string set \<Rightarrow> string \<Rightarrow> error + unit \<Rightarrow> string set \<times> (error + string)" where
  "create_pdf files fresh output =
     (insert fresh files, case output of Inl e \<Rightarrow> Inl e | Inr u \<Rightarrow> Inr fresh)"

text \<open>
  \<open>main\<close>, lines 444 to 453: create the file, hand it to the consumer inside
  \<open>with open(pdf_path, "rb") as f: st.download_button(...)\<close>, then \<open>os.unlink(pdf_path)\<close>.
  The outcome of the \<open>with\<close> block is \<open>handoff\<close>; when it raises, the exception leaves
  \<open>main\<close> and the statement after the block is not reached.
\<close>

definition offer_download ::
  "string set \<Rightarrow> string \<Rightarrow> error + unit \<Rightarrow> error + unit \<Rightarrow> string set \<times> (error + unit)"
  where
  "offer_download files fresh output handoff =
     (case create_pdf files fresh output of
        (files', Inl e) \<Rightarrow> (files', Inl e)
      | (files', Inr pdf_path) \<Rightarrow>
          (case handoff of
             Inl e \<Rightarrow> (files', Inl e)
           | Inr u \<Rightarrow> (files' - {pdf_path}, Inr ())))"

section \<open>Notions of the specification, and an example host\<close>





text \<open>What the specification says of one code point: the substitute of the table when
  there is one, else the code point itself when Latin-1 has it, else a question mark.\<close>

definition clean_char :: "nat \<Rightarrow> ustring" where
  "clean_char c =
     (case map_of replacements [c] of
        Some v \<Rightarrow> v
      | None \<Rightarrow> if c < 256 then [c] else [0x3F])"

text \<open>A host to run the functions on concrete ASCII inputs: its \<open>float\<close> accepts the
  strings of decimal digits only (Python's accepts these, and more), its \<open>str\<close> of a float
  is that of a whole number of moderate size, its \<open>upper\<close> leaves what is beyond ASCII
  as it is, its clock shows 2023-06-15.\<close>

definition digits_value :: "string \<Rightarrow> nat" where
  "digits_value s = foldl (\<lambda>n c. 10 * n + digit c) 0 s"

definition example_host :: host where
  "example_host =
     \<lparr>today = ''2023-06-15'',
      float_of_str = (\<lambda>s. if s \<noteq> [] \<and> list_all isdigit s
                           then Some (Fin (of_nat (digits_value s))) else None),
      str_of_float = (\<lambda>x. str_int \<lfloor>x\<rfloor> @ ''.0''),
      hash = (\<lambda>s. int (length s)),
      str_upper = map char_upper\<rparr>"

section \<open>Evaluation on concrete inputs\<close>

lemma digit_simps:
  "digit CHR ''0'' = 0" "digit CHR ''1'' = 1" "digit CHR ''2'' = 2" "digit CHR ''3'' = 3"
  "digit CHR ''4'' = 4" "digit CHR ''5'' = 5" "digit CHR ''6'' = 6" "digit CHR ''7'' = 7"
  "digit CHR ''8'' = 8" "digit CHR ''9'' = 9"
  by (simp_all add: digit_def)

lemmas strptime_eval = strptime_def isdigit_def digit_simps days_in_month_def is_leap_def

lemmas filter_eval = filtered_docs_def in_window_def date_le_def strptime_eval

lemmas metrics_eval =
  period_metrics_def amount_sum_def rows_of_type_def duration_of_def toordinal_def upt_rec

lemma scale_exp_numeral:
  "scale_exp (numeral k) x e =
     (if 2 \<le> x then scale_exp (pred_numeral k) (x / 2) (e + 1)
      else if x < 1 then scale_exp (pred_numeral k) (x * 2) (e - 1)
      else e)"
  by (simp add: numeral_eq_Suc)

lemma floor_numeral_div:
  "\<lfloor>numeral a / numeral b :: rat\<rfloor> = numeral a div numeral b"
  using floor_divide_of_int_eq [of "numeral a" "numeral b", where ?'a = rat] by simp

lemmas float_eval =
  round_double_def exponent_def scale_exp_numeral round_half_even_def pow2_def
  three_tenths_def floor_numeral_div Let_def

lemmas upper_eval = upper_def isascii_def char_upper_def

section \<open>The empty filtered set\<close>

lemma period_metrics_empty:
  "filtered_docs start_date end_date documents = [] \<Longrightarrow>
   period_metrics start_date end_date documents = Inl (KeyError ''type'')"
  by (simp add: period_metrics_def amount_sum_def)


lemma zero_income_ratios:
  assumes "period_metrics start_date end_date documents = Inr m"
    and "total_income m = 0"
  shows "expense_ratio m = 0 \<and> profit_margin m = 0"
  using assms
  by (auto simp: period_metrics_def amount_sum_def Let_def split: if_splits)

lemma zero_income_nonempty:
  assumes "filtered_docs start_date end_date documents \<noteq> []"
    and "sum_skipna (map amount (rows_of_type ''income''
           (filtered_docs start_date end_date documents))) = 0"
  shows "\<exists>m. period_metrics start_date end_date documents = Inr m
           \<and> total_income m = 0 \<and> expense_ratio m = 0 \<and> profit_margin m = 0"
  using assms by (simp add: period_metrics_def amount_sum_def Let_def)

lemma generate_audit_report_empty:
  "filtered_docs start_date end_date documents = [] \<Longrightarrow>
   generate_audit_report h now business_name start_date end_date documents risk_flags
     = Inl (KeyError ''type'')"
  by (simp add: generate_audit_report_def period_metrics_empty)

text \<open>
  C1. A report for a window that holds none of the transactions should come out with zero
  metrics and the sentinel lines. The code does not get that far: with the three sample
  transactions of June 2023 and the window January 2024 the filtered list is empty, the
  frame has no columns, and the first column selection raises KeyError (line 231).
\<close>

theorem C1_empty_window_raises:
  "filtered_docs \<lparr>year = 2024, month = 1, day = 1\<rparr> \<lparr>year = 2024, month = 1, day = 31\<rparr>
     [\<lparr>doc_id = ''INV-101'', date = ''2023-06-05'', vendor = ''Client A'',
       amount = Fin 150000, gst = Fin 27000, doc_type = ''income''\<rparr>,
      \<lparr>doc_id = ''GSTIN-AB123'', date = ''2023-06-08'', vendor = ''Supplier X'',
       amount = Fin 50000, gst = Fin 9000, doc_type = ''expense''\<rparr>,
      \<lparr>doc_id = ''INV-102'', date = ''2023-06-12'', vendor = ''Client B'',
       amount = Fin 200000, gst = Fin 36000, doc_type = ''income''\<rparr>] = []
   \<and> generate_audit_report h now business_name
     \<lparr>year = 2024, month = 1, day = 1\<rparr> \<lparr>year = 2024, month = 1, day = 31\<rparr>
     [\<lparr>doc_id = ''INV-101'', date = ''2023-06-05'', vendor = ''Client A'',
       amount = Fin 150000, gst = Fin 27000, doc_type = ''income''\<rparr>,
      \<lparr>doc_id = ''GSTIN-AB123'', date = ''2023-06-08'', vendor = ''Supplier X'',
       amount = Fin 50000, gst = Fin 9000, doc_type = ''expense''\<rparr>,
      \<lparr>doc_id = ''INV-102'', date = ''2023-06-12'', vendor = ''Client B'',
       amount = Fin 200000, gst = Fin 36000, doc_type = ''income''\<rparr>] risk_flags
     = Inl (KeyError ''type'')"
  by (simp add: generate_audit_report_def period_metrics_def amount_sum_def filter_eval)

text \<open>
  C4. With no income in the filtered set both ratios should be 0. They are whenever the
  filtered set is not empty (\<open>zero_income_nonempty\<close>), but for an empty filtered set,
  whose income is 0 as well, the aggregator raises before it computes them: one expense
  of June 2023 and the window January 2024.
\<close>

theorem C4_zero_income_empty_set_raises:
  "sum_skipna (map amount (rows_of_type ''income''
      (filtered_docs \<lparr>year = 2024, month = 1, day = 1\<rparr> \<lparr>year = 2024, month = 1, day = 31\<rparr>
        [\<lparr>doc_id = ''GSTIN-AB123'', date = ''2023-06-08'', vendor = ''Supplier X'',
          amount = Fin 50000, gst = Fin 9000, doc_type = ''expense''\<rparr>]))) = 0
   \<and> period_metrics \<lparr>year = 2024, month = 1, day = 1\<rparr> \<lparr>year = 2024, month = 1, day = 31\<rparr>
        [\<lparr>doc_id = ''GSTIN-AB123'', date = ''2023-06-08'', vendor = ''Supplier X'',
          amount = Fin 50000, gst = Fin 9000, doc_type = ''expense''\<rparr>]
      = Inl (KeyError ''type'')"
  by (simp add: period_metrics_def amount_sum_def rows_of_type_def filter_eval)

lemmas report_eval =
  generate_audit_report_def executive_summary_def cash_flow_def gst_compliance_def
  ai_insights_def recommendations_def vendor_line_def issue_line_def
  gst_docs_of_def total_gst_of_def gst_issues_of_def issues_of_def id_has_token_def
  upper_eval float_eval groupby_sum_def nlargest_def value_counts_def count_max_def
  idxmax_def Let_def

section \<open>The end-to-end scenario\<close>

text \<open>
  C2. The two transactions of the scenario, over June 2023: income 150000, expense 50000,
  net balance 100000, profit margin 200/3 and expense ratio 100/3 (66.7 and 33.3 to
  one decimal), 30 days, GST total 36000, no finding, and the whole report, which has no
  GST Issues heading.
\<close>

theorem C2_end_to_end:
  "period_metrics \<lparr>year = 2023, month = 6, day = 1\<rparr> \<lparr>year = 2023, month = 6, day = 30\<rparr>
     [\<lparr>doc_id = ''INV-101'', date = ''2023-06-05'', vendor = ''Client A'',
       amount = Fin 150000, gst = Fin 27000, doc_type = ''income''\<rparr>,
      \<lparr>doc_id = ''GSTIN-AB123'', date = ''2023-06-08'', vendor = ''Supplier X'',
       amount = Fin 50000, gst = Fin 9000, doc_type = ''expense''\<rparr>]
   = Inr \<lparr>total_invoices = 2, total_income = 150000, total_expense = 50000,
          net_balance = 100000, expense_ratio = 100 / 3, profit_margin = 200 / 3,
          duration_days = 30\<rparr>
   \<and> \<bar>200 / 3 - 667 / 10\<bar> < (1 / 20 :: rat)
   \<and> \<bar>100 / 3 - 333 / 10\<bar> < (1 / 20 :: rat)
   \<and> total_gst_of (gst_docs_of
       (filtered_docs \<lparr>year = 2023, month = 6, day = 1\<rparr> \<lparr>year = 2023, month = 6, day = 30\<rparr>
         [\<lparr>doc_id = ''INV-101'', date = ''2023-06-05'', vendor = ''Client A'',
           amount = Fin 150000, gst = Fin 27000, doc_type = ''income''\<rparr>,
          \<lparr>doc_id = ''GSTIN-AB123'', date = ''2023-06-08'', vendor = ''Supplier X'',
           amount = Fin 50000, gst = Fin 9000, doc_type = ''expense''\<rparr>])) = Fin 36000
   \<and> gst_issues_of h (gst_docs_of
       (filtered_docs \<lparr>year = 2023, month = 6, day = 1\<rparr> \<lparr>year = 2023, month = 6, day = 30\<rparr>
         [\<lparr>doc_id = ''INV-101'', date = ''2023-06-05'', vendor = ''Client A'',
           amount = Fin 150000, gst = Fin 27000, doc_type = ''income''\<rparr>,
          \<lparr>doc_id = ''GSTIN-AB123'', date = ''2023-06-08'', vendor = ''Supplier X'',
           amount = Fin 50000, gst = Fin 9000, doc_type = ''expense''\<rparr>])) = []
   \<and> generate_audit_report h now business_name
       \<lparr>year = 2023, month = 6, day = 1\<rparr> \<lparr>year = 2023, month = 6, day = 30\<rparr>
       [\<lparr>doc_id = ''INV-101'', date = ''2023-06-05'', vendor = ''Client A'',
         amount = Fin 150000, gst = Fin 27000, doc_type = ''income''\<rparr>,
        \<lparr>doc_id = ''GSTIN-AB123'', date = ''2023-06-08'', vendor = ''Supplier X'',
         amount = Fin 50000, gst = Fin 9000, doc_type = ''expense''\<rparr>] []
     = Inr [[Txt ''# '', Txt business_name, Txt '' - Audit Report''],
      [Txt ''## Period: '', Iso \<lparr>year = 2023, month = 6, day = 1\<rparr>,
       Txt '' to '', Iso \<lparr>year = 2023, month = 6, day = 30\<rparr>, Txt '' ('',
       Num 30, Txt '' days)''],
      [], [Txt ''## Executive Summary''], [],
      [Txt ''- **Financial Overview**: Net balance of Rs.'',
       Money (Fin 100000), Txt '' (Income: Rs.'', Money (Fin 150000),
       Txt '', Expenses: Rs.'', Money (Fin 50000), Txt '')''],
      [Txt ''- **Profit Margin**: '', Pct (200 / 3), Txt ''%''],
      [Txt ''- **Expense Ratio**: '', Pct (100 / 3), Txt ''% of income''],
      [Txt ''- **Transactions Processed**: '', Num 2], [],
      [Txt ''## Cash Flow Analysis''], [], [Txt ''### Income Sources''],
      [Txt ''- '', Txt ''Client A'', Txt '': Rs.'', Money (Fin 150000)], [],
      [Txt ''### Major Expenses''],
      [Txt ''- '', Txt ''Supplier X'', Txt '': Rs.'', Money (Fin 50000)],
      [], [Txt ''## GST Compliance''], [],
      [Txt ''- **Total GST Processed**: Rs.'', Money (Fin 36000)], [],
      [Txt ''## AI Insights''], [],
      [Txt ''- **Vendor Concentration**: '', Txt ''Client A'',
       Txt '' appears '', Num 1, Txt '' times''],
      [], [Txt ''## Recommendations''], [], [Txt ''### Immediate Actions''],
      [Txt ''- Reconcile GST input credits''], [],
      [Txt ''### Strategic Actions''], [],
      [Txt ''*Report generated on '', Txt now, Txt ''*'']]"
  by (simp add: report_eval metrics_eval filter_eval)

section \<open>GST findings\<close>

lemma startswith_iff: "startswith s p \<longleftrightarrow> (\<exists>w. s = p @ w)"
  by (induction s p rule: startswith.induct) auto

lemma str_in_iff: "str_in x s \<longleftrightarrow> (\<exists>u w. s = u @ x @ w)"
proof (induction s)
  case Nil
  then show ?case by auto
next
  case (Cons c cs)
  show ?case
  proof
    assume "str_in x (c # cs)"
    then consider "startswith (c # cs) x" | "str_in x cs" by auto
    then show "\<exists>u w. c # cs = u @ x @ w"
    proof cases
      case 1
      then obtain w where "c # cs = x @ w" by (auto simp: startswith_iff)
      then have "c # cs = [] @ x @ w" by simp
      then show ?thesis by blast
    next
      case 2
      then obtain u w where "cs = u @ x @ w" using Cons.IH by auto
      then have "c # cs = (c # u) @ x @ w" by simp
      then show ?thesis by blast
    qed
  next
    assume "\<exists>u w. c # cs = u @ x @ w"
    then obtain u w where uw: "c # cs = u @ x @ w" by auto
    show "str_in x (c # cs)"
    proof (cases u)
      case Nil
      with uw have "startswith (c # cs) x" by (auto simp: startswith_iff)
      then show ?thesis by simp
    next
      case (Cons a u')
      with uw have "cs = u' @ x @ w" by simp
      then have "str_in x cs" using Cons.IH by blast
      then show ?thesis by simp
    qed
  qed
qed

















section \<open>Rows and pages that do not parse\<close>

lemma extract_rows_append:
  "extract_rows h (xs @ ys) =
     (fst (extract_rows h xs) @ fst (extract_rows h ys),
      snd (extract_rows h xs) @ snd (extract_rows h ys))"
  by (induction xs) (auto split: sum.splits)

lemma csv_document_amount_fails:
  "float_cell h (row_get r ''amount'' (CInt 0)) = Inl e \<Longrightarrow> csv_document h i r = Inl e"
  by (simp add: csv_document_def)

lemma iterrows_nth: "i < length df \<Longrightarrow> iterrows df ! i = (i, df ! i)"
  by (simp add: iterrows_def)

lemma iterrows_split:
  assumes "i < length df"
  shows "iterrows df = take i (iterrows df) @ (i, df ! i) # drop (Suc i) (iterrows df)"
proof -
  have "i < length (iterrows df)" using assms by (simp add: iterrows_def)
  then have "iterrows df = take i (iterrows df) @ iterrows df ! i # drop (Suc i) (iterrows df)"
    by (rule id_take_nth_drop)
  then show ?thesis using assms by (simp add: iterrows_nth)
qed

text \<open>Every exception of the page loop is the ValueError of \<open>float\<close>, and whether a line
  raises does not depend on the fields read so far.\<close>

lemma scan_line_error:
  "scan_line h f l = Inl e \<Longrightarrow> (\<exists>s. e = ValueError s) \<and> scan_line h f' l = Inl e"
  by (auto simp: scan_line_def to_float_def split: if_splits option.splits)

lemma scan_line_raises:
  assumes "\<not> str_in ''Vendor:'' l" and "\<not> str_in ''Date:'' l"
    and "(str_in ''Total:'' l \<and> float_of_str h (number_text ''Total:'' l) = None)
         \<or> (\<not> str_in ''Total:'' l \<and> str_in ''GST:'' l
             \<and> float_of_str h (number_text ''GST:'' l) = None)"
  shows "\<exists>s. scan_line h f l = Inl (ValueError s)"
  using assms by (auto simp: scan_line_def to_float_def)

lemma scan_lines_raises:
  "l \<in> set ls \<Longrightarrow> scan_line h f0 l = Inl e0 \<Longrightarrow> \<exists>s. scan_lines h f ls = Inl (ValueError s)"
proof (induction ls arbitrary: f)
  case Nil
  then show ?case by simp
next
  case (Cons a ls)
  show ?case
  proof (cases "scan_line h f a")
    case (Inl e)
    then show ?thesis using scan_line_error [OF Inl] by auto
  next
    case (Inr f')
    have "scan_line h f l = Inl e0" using scan_line_error [OF Cons.prems(2)] by blast
    with Inr have "a \<noteq> l" by auto
    then have "l \<in> set ls" using Cons.prems(1) by simp
    then show ?thesis using Cons.IH Cons.prems(2) Inr by simp
  qed
qed

lemma page_document_raises:
  assumes "l \<in> set (split CHR 0x0A text)" and "scan_line h f0 l = Inl e0"
  shows "\<exists>s. page_document h text = Inl (ValueError s)"
proof -
  obtain s where
    "scan_lines h \<lparr>pf_vendor = ''Unknown'', pf_date = today h,
                    pf_amount = Fin 0, pf_gst = Fin 0\<rparr> (split CHR 0x0A text)
       = Inl (ValueError s)"
    using scan_lines_raises [OF assms] by blast
  then show ?thesis by (simp add: page_document_def)
qed

lemma page_document_error:
  "page_document h text = Inl e \<Longrightarrow> \<exists>s. e = ValueError s"
proof -
  have "\<And>f ls. scan_lines h f ls = Inl e \<Longrightarrow> \<exists>s. e = ValueError s"
  proof -
    fix f ls
    show "scan_lines h f ls = Inl e \<Longrightarrow> \<exists>s. e = ValueError s"
    proof (induction ls arbitrary: f)
      case Nil
      then show ?case by simp
    next
      case (Cons a ls)
      then show ?case
        using scan_line_error [of h f a e] by (auto split: sum.splits)
    qed
  qed
  then show "page_document h text = Inl e \<Longrightarrow> \<exists>s. e = ValueError s"
    by (auto simp: page_document_def split: sum.splits)
qed

lemma extract_pages_raises:
  "text \<in> set pages \<Longrightarrow> page_document h text = Inl e \<Longrightarrow>
   \<exists>s. extract_pages h documents pages = Inl (ValueError s)"
proof (induction pages arbitrary: documents)
  case Nil
  then show ?case by simp
next
  case (Cons p pages)
  show ?case
  proof (cases "page_document h p")
    case (Inl e')
    then show ?thesis using page_document_error [OF Inl] by auto
  next
    case (Inr doc)
    then have "p \<noteq> text" using Cons.prems(2) by auto
    then have "text \<in> set pages" using Cons.prems(1) by simp
    then show ?thesis using Cons.IH Cons.prems(2) Inr by simp
  qed
qed

text \<open>
  C5. As stated the claim fails for a page whose \<open>Total:\<close> stands on a line that also
  holds \<open>Vendor:\<close>: the line is read as the vendor's, \<open>float\<close> is not called, and the
  document is extracted with amount 0 although neither the line without its label nor
  the text after the label is a number.
\<close>

theorem C5_total_on_vendor_line_counterexample:
  "str_in ''Total:'' ''Vendor: ACME Total: abc''
   \<and> float_of_str example_host (number_text ''Total:'' ''Vendor: ACME Total: abc'') = None
   \<and> float_of_str example_host ''abc'' = None
   \<and> extract_data_from_pdf example_host [''Vendor: ACME Total: abc'']
       = Inr [\<lparr>doc_id = ''PDF-23'', date = ''2023-06-15'', vendor = ''ACME Total: abc'',
               amount = Fin 0, gst = Fin 0, doc_type = ''income''\<rparr>]"
  by (simp add: extract_data_from_pdf_def page_document_def scan_line_def number_text_def
      strip_def isspace_def example_host_def isdigit_def str_int_def str_nat.simps
      char_of_eq_iff)

text \<open>
  C5, amended. A row of the table whose amount does not convert is skipped: a warning
  with its index is issued, and the documents are those of the table without that row,
  so that every total computed from them is the same. A page with a line that holds
  \<open>Total:\<close>, or \<open>GST:\<close> and not \<open>Total:\<close>, and holds neither \<open>Vendor:\<close> nor \<open>Date:\<close>,
  and whose text without the label, the currency sign and the commas \<open>float\<close> rejects,
  makes the extraction of its document raise ValueError.
\<close>

theorem C5_unparseable_numbers:
  "(i < length df \<and> float_cell h (row_get (df ! i) ''amount'' (CInt 0)) = Inl e \<longrightarrow>
      (i, e) \<in> set (snd (extract_data_from_csv h df))
      \<and> fst (extract_data_from_csv h df)
          = fst (extract_rows h (take i (iterrows df) @ drop (Suc i) (iterrows df)))
      \<and> period_metrics start_date end_date (fst (extract_data_from_csv h df))
          = period_metrics start_date end_date
              (fst (extract_rows h (take i (iterrows df) @ drop (Suc i) (iterrows df)))))
   \<and> (text \<in> set pages \<and> l \<in> set (split CHR 0x0A text)
      \<and> \<not> str_in ''Vendor:'' l \<and> \<not> str_in ''Date:'' l
      \<and> ((str_in ''Total:'' l \<and> float_of_str h (number_text ''Total:'' l) = None)
         \<or> (\<not> str_in ''Total:'' l \<and> str_in ''GST:'' l
             \<and> float_of_str h (number_text ''GST:'' l) = None)) \<longrightarrow>
      (\<exists>s. extract_data_from_pdf h pages = Inl (ValueError s)))"
proof (intro conjI impI)
  assume a: "i < length df \<and> float_cell h (row_get (df ! i) ''amount'' (CInt 0)) = Inl e"
  let ?pre = "take i (iterrows df)" and ?post = "drop (Suc i) (iterrows df)"
  have row: "csv_document h i (df ! i) = Inl e"
    using a by (simp add: csv_document_amount_fails)
  have "extract_data_from_csv h df = extract_rows h (?pre @ (i, df ! i) # ?post)"
    unfolding extract_data_from_csv_def using a iterrows_split [of i df] by simp
  also have "\<dots> = (fst (extract_rows h ?pre) @ fst (extract_rows h ?post),
                     snd (extract_rows h ?pre) @ (i, e) # snd (extract_rows h ?post))"
    using row by (simp add: extract_rows_append)
  finally have eq: "extract_data_from_csv h df
     = (fst (extract_rows h ?pre) @ fst (extract_rows h ?post),
        snd (extract_rows h ?pre) @ (i, e) # snd (extract_rows h ?post))" .
  show "(i, e) \<in> set (snd (extract_data_from_csv h df))"
    unfolding eq by simp
  show docs: "fst (extract_data_from_csv h df) = fst (extract_rows h (?pre @ ?post))"
    unfolding eq by (simp add: extract_rows_append)
  show "period_metrics start_date end_date (fst (extract_data_from_csv h df))
          = period_metrics start_date end_date (fst (extract_rows h (?pre @ ?post)))"
    unfolding docs ..
next
  assume p: "text \<in> set pages \<and> l \<in> set (split CHR 0x0A text)
      \<and> \<not> str_in ''Vendor:'' l \<and> \<not> str_in ''Date:'' l
      \<and> ((str_in ''Total:'' l \<and> float_of_str h (number_text ''Total:'' l) = None)
         \<or> (\<not> str_in ''Total:'' l \<and> str_in ''GST:'' l
             \<and> float_of_str h (number_text ''GST:'' l) = None))"
  then obtain s where
    "scan_line h \<lparr>pf_vendor = ''Unknown'', pf_date = today h,
                   pf_amount = Fin 0, pf_gst = Fin 0\<rparr> l = Inl (ValueError s)"
    using scan_line_raises [of l h] by blast
  then obtain s' where "page_document h text = Inl (ValueError s')"
    using page_document_raises p by blast
  then show "\<exists>s. extract_data_from_pdf h pages = Inl (ValueError s)"
    unfolding extract_data_from_pdf_def using extract_pages_raises p by blast
qed

theorem C5_unparseable_numbers_witness:
  "(0 < length [[(''amount'', CText ''abc'')],
                [(''id'', CText ''INV-7''), (''amount'', CText ''120'')]]
    \<and> float_cell example_host
         (row_get ([[(''amount'', CText ''abc'')],
                    [(''id'', CText ''INV-7''), (''amount'', CText ''120'')]] ! 0)
            ''amount'' (CInt 0)) = Inl (ValueError ''abc'')
    \<and> (0, ValueError ''abc'')
        \<in> set (snd (extract_data_from_csv example_host
             [[(''amount'', CText ''abc'')],
              [(''id'', CText ''INV-7''), (''amount'', CText ''120'')]]))
    \<and> fst (extract_data_from_csv example_host
             [[(''amount'', CText ''abc'')],
              [(''id'', CText ''INV-7''), (''amount'', CText ''120'')]])
        = [\<lparr>doc_id = ''INV-7'', date = ''2023-06-15'', vendor = ''Unknown'',
            amount = Fin 120, gst = Fin 0, doc_type = ''expense''\<rparr>])
   \<and> (''Invoice\<newline>Total: 12.x'' \<in> set [''Receipt\<newline>Total: 77'', ''Invoice\<newline>Total: 12.x'']
      \<and> ''Total: 12.x'' \<in> set (split CHR 0x0A ''Invoice\<newline>Total: 12.x'')
      \<and> \<not> str_in ''Vendor:'' ''Total: 12.x'' \<and> \<not> str_in ''Date:'' ''Total: 12.x''
      \<and> str_in ''Total:'' ''Total: 12.x''
      \<and> float_of_str example_host (number_text ''Total:'' ''Total: 12.x'') = None
      \<and> (\<exists>s. extract_data_from_pdf example_host
                  [''Receipt\<newline>Total: 77'', ''Invoice\<newline>Total: 12.x'']
                = Inl (ValueError s)))
   \<and> (''GST: 1x'' \<in> set (split CHR 0x0A ''Receipt\<newline>GST: 1x'')
      \<and> \<not> str_in ''Vendor:'' ''GST: 1x'' \<and> \<not> str_in ''Date:'' ''GST: 1x''
      \<and> \<not> str_in ''Total:'' ''GST: 1x'' \<and> str_in ''GST:'' ''GST: 1x''
      \<and> float_of_str example_host (number_text ''GST:'' ''GST: 1x'') = None
      \<and> (\<exists>s. extract_data_from_pdf example_host [''Receipt\<newline>GST: 1x'']
                = Inl (ValueError s)))"
proof -
  let ?df = "[[(''amount'', CText ''abc'')],
              [(''id'', CText ''INV-7''), (''amount'', CText ''120'')]]"
  let ?pages = "[''Receipt\<newline>Total: 77'', ''Invoice\<newline>Total: 12.x'']"
  have h1: "0 < length ?df
     \<and> float_cell example_host (row_get (?df ! 0) ''amount'' (CInt 0))
         = Inl (ValueError ''abc'')"
    by (simp add: row_get_def to_float_def example_host_def isdigit_def)
  have h2: "''Invoice\<newline>Total: 12.x'' \<in> set ?pages
      \<and> ''Total: 12.x'' \<in> set (split CHR 0x0A ''Invoice\<newline>Total: 12.x'')
      \<and> \<not> str_in ''Vendor:'' ''Total: 12.x'' \<and> \<not> str_in ''Date:'' ''Total: 12.x''
      \<and> str_in ''Total:'' ''Total: 12.x''
      \<and> float_of_str example_host (number_text ''Total:'' ''Total: 12.x'') = None"
    by (simp add: number_text_def strip_def isspace_def example_host_def isdigit_def)
  have h3: "''Receipt\<newline>GST: 1x'' \<in> set [''Receipt\<newline>GST: 1x'']
      \<and> ''GST: 1x'' \<in> set (split CHR 0x0A ''Receipt\<newline>GST: 1x'')
      \<and> \<not> str_in ''Vendor:'' ''GST: 1x'' \<and> \<not> str_in ''Date:'' ''GST: 1x''
      \<and> \<not> str_in ''Total:'' ''GST: 1x'' \<and> str_in ''GST:'' ''GST: 1x''
      \<and> float_of_str example_host (number_text ''GST:'' ''GST: 1x'') = None"
    by (simp add: number_text_def strip_def isspace_def example_host_def isdigit_def)
  note t = C5_unparseable_numbers [of 0 ?df example_host "ValueError ''abc''" _ _
      "''Invoice\<newline>Total: 12.x''" ?pages "''Total: 12.x''"]
  note t' = C5_unparseable_numbers [of 0 ?df example_host "ValueError ''abc''" _ _
      "''Receipt\<newline>GST: 1x''" "[''Receipt\<newline>GST: 1x'']" "''GST: 1x''"]
  have c1: "(0, ValueError ''abc'') \<in> set (snd (extract_data_from_csv example_host ?df))"
    using t h1 by blast
  have "fst (extract_data_from_csv example_host ?df)
        = fst (extract_rows example_host (take 0 (iterrows ?df) @ drop (Suc 0) (iterrows ?df)))"
    using t h1 by blast
  also have "\<dots> = [\<lparr>doc_id = ''INV-7'', date = ''2023-06-15'', vendor = ''Unknown'',
            amount = Fin 120, gst = Fin 0, doc_type = ''expense''\<rparr>]"
    by (simp add: iterrows_def upt_rec csv_document_def row_get_def to_float_def
        example_host_def isdigit_def digits_value_def digit_simps lower_def char_lower_def)
  finally have c2: "fst (extract_data_from_csv example_host ?df)
        = [\<lparr>doc_id = ''INV-7'', date = ''2023-06-15'', vendor = ''Unknown'',
            amount = Fin 120, gst = Fin 0, doc_type = ''expense''\<rparr>]" .
  have c3: "\<exists>s. extract_data_from_pdf example_host ?pages = Inl (ValueError s)"
    using t h2 by blast
  have c4: "\<exists>s. extract_data_from_pdf example_host [''Receipt\<newline>GST: 1x'']
              = Inl (ValueError s)"
    using t' h3 by blast
  from h1 h2 h3 c1 c2 c3 c4 show ?thesis by blast
qed

section \<open>Types and dates of extracted transactions\<close>

lemma sum_skipna_append: "sum_skipna (xs @ ys) = sum_skipna xs + sum_skipna ys"
  by (induction xs rule: sum_skipna.induct) auto

lemma in_window_counted:
  assumes "in_window start_date end_date doc"
  shows "\<exists>m. period_metrics start_date end_date (pre @ doc # post) = Inr m
           \<and> total_income m
               = (if doc_type doc = ''income'' then sum_skipna [amount doc] else 0)
                 + sum_skipna (map amount (rows_of_type ''income''
                     (filtered_docs start_date end_date (pre @ post))))
           \<and> total_expense m
               = (if doc_type doc = ''expense'' then sum_skipna [amount doc] else 0)
                 + sum_skipna (map amount (rows_of_type ''expense''
                     (filtered_docs start_date end_date (pre @ post))))"
proof -
  have f: "filtered_docs start_date end_date (pre @ doc # post)
           = filtered_docs start_date end_date pre @ doc # filtered_docs start_date end_date post"
    using assms by (simp add: filtered_docs_def)
  have g: "filtered_docs start_date end_date (pre @ post)
           = filtered_docs start_date end_date pre @ filtered_docs start_date end_date post"
    by (simp add: filtered_docs_def)
  have s: "\<And>t. sum_skipna (map amount (rows_of_type t
               (filtered_docs start_date end_date (pre @ doc # post))))
           = (if doc_type doc = t then sum_skipna [amount doc] else 0)
             + sum_skipna (map amount (rows_of_type t
                 (filtered_docs start_date end_date (pre @ post))))"
    unfolding f g
    by (cases "amount doc") (simp_all add: rows_of_type_def sum_skipna_append)
  have ne: "filtered_docs start_date end_date (pre @ doc # post) \<noteq> []"
    unfolding f by simp
  show ?thesis
    using ne s [of "''income''"] s [of "''expense''"]
    by (simp add: period_metrics_def amount_sum_def Let_def)
qed

lemma csv_document_cases:
  assumes "csv_document h i r = Inr doc"
  obtains a g where
    "float_cell h (row_get r ''amount'' (CInt 0)) = Inr a"
    "float_cell h (row_get r ''gst'' (CInt 0)) = Inr g"
    "doc = \<lparr>doc_id = str_cell h (row_get r ''id''
                         (row_get r ''invoice_no'' (CText (''CSV-'' @ str_nat i)))),
             date = str_cell h (row_get r ''date'' (CText (today h))),
             vendor = str_cell h (row_get r ''vendor'' (CText ''Unknown'')),
             amount = a, gst = g,
             doc_type = lower (str_cell h (row_get r ''type'' (CText ''expense'')))\<rparr>"
proof (cases "float_cell h (row_get r ''amount'' (CInt 0))")
  case (Inl e)
  then show ?thesis using assms by (simp add: csv_document_def)
next
  case a: (Inr a)
  show ?thesis
  proof (cases "float_cell h (row_get r ''gst'' (CInt 0))")
    case (Inl e)
    then show ?thesis using assms a by (simp add: csv_document_def)
  next
    case (Inr g)
    then show ?thesis using assms a that by (simp add: csv_document_def)
  qed
qed

lemma csv_document_type:
  "csv_document h i r = Inr doc \<Longrightarrow>
   doc_type doc = lower (str_cell h (row_get r ''type'' (CText ''expense'')))"
  by (erule csv_document_cases) simp

lemma csv_document_date:
  "csv_document h i r = Inr doc \<Longrightarrow>
   date doc = str_cell h (row_get r ''date'' (CText (today h)))"
  by (erule csv_document_cases) simp




text \<open>
  C9. As stated the claim fails for a row whose type cell is empty while the table has a
  type column: the cell is NaN, and the stored type is the text nan, which is in neither
  bucket.
\<close>

theorem C9_empty_type_cell_counterexample:
  "csv_document example_host 0 [(''amount'', CInt 100), (''type'', CFloat NaN)]
     = Inr \<lparr>doc_id = ''CSV-0'', date = ''2023-06-15'', vendor = ''Unknown'',
            amount = Fin 100, gst = Fin 0, doc_type = ''nan''\<rparr>
   \<and> ''nan'' \<noteq> ''expense''
   \<and> rows_of_type ''expense''
        (filtered_docs \<lparr>year = 2023, month = 6, day = 1\<rparr> \<lparr>year = 2023, month = 6, day = 30\<rparr>
          [\<lparr>doc_id = ''CSV-0'', date = ''2023-06-15'', vendor = ''Unknown'',
             amount = Fin 100, gst = Fin 0, doc_type = ''nan''\<rparr>]) = []"
  by (simp add: csv_document_def row_get_def example_host_def lower_def char_lower_def
      str_nat.simps char_of_eq_iff rows_of_type_def filter_eval)

text \<open>
  C9, amended. A row of a table that has no type column, whose numbers convert, is stored
  with type expense; when its date lies in the window the total expense is its amount
  plus the expense of the other transactions, and it is no part of the total income.
\<close>

theorem C9_missing_type_column:
  assumes "map_of r ''type'' = None"
    and "csv_document h i r = Inr doc"
  shows "doc_type doc = ''expense''
       \<and> (in_window start_date end_date doc \<longrightarrow>
            (\<exists>m. period_metrics start_date end_date (pre @ doc # post) = Inr m
               \<and> total_expense m
                   = sum_skipna [amount doc]
                     + sum_skipna (map amount (rows_of_type ''expense''
                         (filtered_docs start_date end_date (pre @ post))))
               \<and> total_income m
                   = sum_skipna (map amount (rows_of_type ''income''
                         (filtered_docs start_date end_date (pre @ post))))))"
proof -
  have ty: "doc_type doc = ''expense''"
    using assms(1) csv_document_type [OF assms(2)]
    by (simp add: row_get_def lower_def char_lower_def)
  show ?thesis
  proof (intro conjI impI)
    show "doc_type doc = ''expense''" by (rule ty)
  next
    assume "in_window start_date end_date doc"
    from in_window_counted [OF this, of pre post]
    obtain m where m: "period_metrics start_date end_date (pre @ doc # post) = Inr m"
      and inc: "total_income m
               = (if doc_type doc = ''income'' then sum_skipna [amount doc] else 0)
                 + sum_skipna (map amount (rows_of_type ''income''
                     (filtered_docs start_date end_date (pre @ post))))"
      and exp: "total_expense m
               = (if doc_type doc = ''expense'' then sum_skipna [amount doc] else 0)
                 + sum_skipna (map amount (rows_of_type ''expense''
                     (filtered_docs start_date end_date (pre @ post))))"
      by blast
    from m inc exp ty
    show "\<exists>m. period_metrics start_date end_date (pre @ doc # post) = Inr m
               \<and> total_expense m
                   = sum_skipna [amount doc]
                     + sum_skipna (map amount (rows_of_type ''expense''
                         (filtered_docs start_date end_date (pre @ post))))
               \<and> total_income m
                   = sum_skipna (map amount (rows_of_type ''income''
                         (filtered_docs start_date end_date (pre @ post))))"
      by simp
  qed
qed

theorem C9_missing_type_column_witness:
  "map_of [(''id'', CText ''GSTIN-9''), (''amount'', CInt 100)] ''type'' = None
   \<and> csv_document example_host 0 [(''id'', CText ''GSTIN-9''), (''amount'', CInt 100)]
       = Inr \<lparr>doc_id = ''GSTIN-9'', date = ''2023-06-15'', vendor = ''Unknown'',
              amount = Fin 100, gst = Fin 0, doc_type = ''expense''\<rparr>
   \<and> in_window \<lparr>year = 2023, month = 6, day = 1\<rparr> \<lparr>year = 2023, month = 6, day = 30\<rparr>
         \<lparr>doc_id = ''GSTIN-9'', date = ''2023-06-15'', vendor = ''Unknown'',
           amount = Fin 100, gst = Fin 0, doc_type = ''expense''\<rparr>
   \<and> (\<exists>m. period_metrics \<lparr>year = 2023, month = 6, day = 1\<rparr>
              \<lparr>year = 2023, month = 6, day = 30\<rparr>
              [\<lparr>doc_id = ''GSTIN-9'', date = ''2023-06-15'', vendor = ''Unknown'',
                 amount = Fin 100, gst = Fin 0, doc_type = ''expense''\<rparr>] = Inr m
           \<and> total_expense m = 100 \<and> total_income m = 0)"
proof -
  let ?s = "\<lparr>year = 2023, month = 6, day = 1\<rparr>"
  let ?e = "\<lparr>year = 2023, month = 6, day = 30\<rparr>"
  let ?r = "[(''id'', CText ''GSTIN-9''), (''amount'', CInt 100)]"
  let ?d = "\<lparr>doc_id = ''GSTIN-9'', date = ''2023-06-15'', vendor = ''Unknown'',
             amount = Fin 100, gst = Fin 0, doc_type = ''expense''\<rparr>"
  have m1: "map_of ?r ''type'' = None" by simp
  have c1: "csv_document example_host 0 ?r = Inr ?d"
    by (simp add: csv_document_def row_get_def example_host_def lower_def char_lower_def)
  have w1: "in_window ?s ?e ?d"
    by (simp add: in_window_def date_le_def strptime_eval)
  have e0: "filtered_docs ?s ?e ([] @ []) = []" by (simp add: filtered_docs_def)
  have t1: "\<exists>m. period_metrics ?s ?e [?d] = Inr m
              \<and> total_expense m = 100 \<and> total_income m = 0"
    using C9_missing_type_column [OF m1 c1, of ?s ?e "[]" "[]"] w1
    unfolding e0 by (simp add: rows_of_type_def)
  from m1 c1 w1 t1 show ?thesis by blast
qed

lemma scan_line_date:
  assumes "scan_line h f l = Inr f'" and "\<not> str_in ''Date:'' l"
  shows "pf_date f' = pf_date f"
  using assms by (auto simp: scan_line_def split: if_splits sum.splits)

lemma scan_lines_date:
  "scan_lines h f ls = Inr f' \<Longrightarrow> \<forall>l \<in> set ls. \<not> str_in ''Date:'' l \<Longrightarrow>
   pf_date f' = pf_date f"
proof (induction ls arbitrary: f)
  case Nil
  then show ?case by simp
next
  case (Cons a ls)
  from Cons.prems(1) obtain g where g: "scan_line h f a = Inr g" and r: "scan_lines h g ls = Inr f'"
    by (auto split: sum.splits)
  have "pf_date g = pf_date f" using scan_line_date [OF g] Cons.prems(2) by simp
  moreover have "pf_date f' = pf_date g" using Cons.IH [OF r] Cons.prems(2) by simp
  ultimately show ?case by simp
qed

lemma page_document_date:
  assumes "page_document h text = Inr doc"
    and "\<forall>l \<in> set (split CHR 0x0A text). \<not> str_in ''Date:'' l"
  shows "date doc = today h"
proof -
  let ?f0 = "\<lparr>pf_vendor = ''Unknown'', pf_date = today h, pf_amount = Fin 0, pf_gst = Fin 0\<rparr>"
  obtain f where f: "scan_lines h ?f0 (split CHR 0x0A text) = Inr f" and d: "date doc = pf_date f"
    using assms(1) by (auto simp: page_document_def split: sum.splits)
  from scan_lines_date [OF f assms(2)] d show ?thesis by simp
qed

text \<open>
  C10. As stated the claim fails for a row whose date cell is empty while the table has a
  date column: the cell is NaN, the stored date is the text nan, not the clock's date,
  and the transaction is outside the window that holds the day of the extraction.
\<close>

theorem C10_empty_date_cell_counterexample:
  "csv_document example_host 0 [(''date'', CFloat NaN), (''amount'', CInt 100)]
     = Inr \<lparr>doc_id = ''CSV-0'', date = ''nan'', vendor = ''Unknown'',
            amount = Fin 100, gst = Fin 0, doc_type = ''expense''\<rparr>
   \<and> ''nan'' \<noteq> today example_host
   \<and> strptime (today example_host) = Some \<lparr>year = 2023, month = 6, day = 15\<rparr>
   \<and> \<not> in_window \<lparr>year = 2023, month = 6, day = 1\<rparr> \<lparr>year = 2023, month = 6, day = 30\<rparr>
         \<lparr>doc_id = ''CSV-0'', date = ''nan'', vendor = ''Unknown'',
           amount = Fin 100, gst = Fin 0, doc_type = ''expense''\<rparr>"
  by (simp add: csv_document_def row_get_def example_host_def lower_def char_lower_def
      str_nat.simps char_of_eq_iff in_window_def strptime_eval)

text \<open>
  C10, amended. A page with no line that holds \<open>Date:\<close>, and a row of a table that has
  no date column, give a transaction dated with the clock's date at extraction; whether
  it is in a window is whether that date parses and lies in the window.
\<close>

theorem C10_missing_date:
  assumes "((\<forall>l \<in> set (split CHR 0x0A text). \<not> str_in ''Date:'' l)
            \<and> page_document h text = Inr doc)
         \<or> (map_of r ''date'' = None \<and> csv_document h i r = Inr doc)"
  shows "date doc = today h
       \<and> (in_window start_date end_date doc \<longleftrightarrow>
            (\<exists>d. strptime (today h) = Some d
                 \<and> date_le start_date d \<and> date_le d end_date))"
proof -
  have d: "date doc = today h"
    using assms
  proof (elim disjE conjE)
    assume "\<forall>l \<in> set (split CHR 0x0A text). \<not> str_in ''Date:'' l"
      and "page_document h text = Inr doc"
    then show ?thesis by (rule page_document_date [rotated])
  next
    assume "map_of r ''date'' = None" and c: "csv_document h i r = Inr doc"
    then show ?thesis using csv_document_date [OF c] by (simp add: row_get_def)
  qed
  then show ?thesis
    by (auto simp: in_window_def split: option.splits)
qed

theorem C10_missing_date_witness:
  "(split CHR 0x0A ''Receipt\<newline>Vendor: ACME\<newline>Total: 77''
      = [''Receipt'', ''Vendor: ACME'', ''Total: 77'']
    \<and> \<not> str_in ''Date:'' ''Receipt'' \<and> \<not> str_in ''Date:'' ''Vendor: ACME''
    \<and> \<not> str_in ''Date:'' ''Total: 77''
    \<and> page_document example_host ''Receipt\<newline>Vendor: ACME\<newline>Total: 77''
        = Inr \<lparr>doc_id = ''PDF-30'', date = ''2023-06-15'', vendor = ''ACME'',
               amount = Fin 77, gst = Fin 0, doc_type = ''income''\<rparr>
    \<and> in_window \<lparr>year = 2023, month = 6, day = 1\<rparr> \<lparr>year = 2023, month = 6, day = 30\<rparr>
          \<lparr>doc_id = ''PDF-30'', date = ''2023-06-15'', vendor = ''ACME'',
            amount = Fin 77, gst = Fin 0, doc_type = ''income''\<rparr>
    \<and> \<not> in_window \<lparr>year = 2023, month = 7, day = 1\<rparr> \<lparr>year = 2023, month = 7, day = 31\<rparr>
          \<lparr>doc_id = ''PDF-30'', date = ''2023-06-15'', vendor = ''ACME'',
            amount = Fin 77, gst = Fin 0, doc_type = ''income''\<rparr>)
   \<and> (map_of [(''id'', CText ''GSTIN-9''), (''amount'', CInt 100)] ''date'' = None
    \<and> csv_document example_host 0 [(''id'', CText ''GSTIN-9''), (''amount'', CInt 100)]
        = Inr \<lparr>doc_id = ''GSTIN-9'', date = ''2023-06-15'', vendor = ''Unknown'',
               amount = Fin 100, gst = Fin 0, doc_type = ''expense''\<rparr>
    \<and> in_window \<lparr>year = 2023, month = 6, day = 1\<rparr> \<lparr>year = 2023, month = 6, day = 30\<rparr>
          \<lparr>doc_id = ''GSTIN-9'', date = ''2023-06-15'', vendor = ''Unknown'',
            amount = Fin 100, gst = Fin 0, doc_type = ''expense''\<rparr>)"
proof -
  let ?s = "\<lparr>year = 2023, month = 6, day = 1\<rparr>"
  let ?e = "\<lparr>year = 2023, month = 6, day = 30\<rparr>"
  let ?s' = "\<lparr>year = 2023, month = 7, day = 1\<rparr>"
  let ?e' = "\<lparr>year = 2023, month = 7, day = 31\<rparr>"
  let ?text = "''Receipt\<newline>Vendor: ACME\<newline>Total: 77''"
  let ?p = "\<lparr>doc_id = ''PDF-30'', date = ''2023-06-15'', vendor = ''ACME'',
             amount = Fin 77, gst = Fin 0, doc_type = ''income''\<rparr>"
  let ?r = "[(''id'', CText ''GSTIN-9''), (''amount'', CInt 100)]"
  let ?c = "\<lparr>doc_id = ''GSTIN-9'', date = ''2023-06-15'', vendor = ''Unknown'',
             amount = Fin 100, gst = Fin 0, doc_type = ''expense''\<rparr>"
  have today: "strptime (today example_host) = Some \<lparr>year = 2023, month = 6, day = 15\<rparr>"
    by (simp add: example_host_def strptime_eval)
  have h1: "\<forall>l \<in> set (split CHR 0x0A ?text). \<not> str_in ''Date:'' l"
    by simp
  have h2: "page_document example_host ?text = Inr ?p"
    by (simp add: page_document_def scan_line_def number_text_def strip_def isspace_def
        to_float_def example_host_def isdigit_def digits_value_def digit_simps
        str_int_def str_nat.simps char_of_eq_iff)
  have h3: "map_of ?r ''date'' = None" by simp
  have h4: "csv_document example_host 0 ?r = Inr ?c"
    by (simp add: csv_document_def row_get_def example_host_def lower_def char_lower_def)
  have t1: "in_window ?s ?e ?p \<longleftrightarrow>
      (\<exists>d. strptime (today example_host) = Some d \<and> date_le ?s d \<and> date_le d ?e)"
    by (rule C10_missing_date [THEN conjunct2]) (rule disjI1, rule conjI, rule h1, rule h2)
  have t2: "in_window ?s' ?e' ?p \<longleftrightarrow>
      (\<exists>d. strptime (today example_host) = Some d \<and> date_le ?s' d \<and> date_le d ?e')"
    by (rule C10_missing_date [THEN conjunct2]) (rule disjI1, rule conjI, rule h1, rule h2)
  have t3: "in_window ?s ?e ?c \<longleftrightarrow>
      (\<exists>d. strptime (today example_host) = Some d \<and> date_le ?s d \<and> date_le d ?e)"
    by (rule C10_missing_date [THEN conjunct2]) (rule disjI2, rule conjI, rule h3, rule h4)
  have w1: "in_window ?s ?e ?p"
    unfolding t1 today by (simp add: date_le_def)
  have w2: "\<not> in_window ?s' ?e' ?p"
    unfolding t2 today by (simp add: date_le_def)
  have w3: "in_window ?s ?e ?c"
    unfolding t3 today by (simp add: date_le_def)
  have h0: "split CHR 0x0A ?text = [''Receipt'', ''Vendor: ACME'', ''Total: 77'']
      \<and> \<not> str_in ''Date:'' ''Receipt'' \<and> \<not> str_in ''Date:'' ''Vendor: ACME''
      \<and> \<not> str_in ''Date:'' ''Total: 77''"
    by simp
  from h0 h2 h3 h4 w1 w2 w3 show ?thesis by blast
qed

section \<open>Sanitization\<close>

lemma replace_single:
  "replace [k] v t = concat (map (\<lambda>c. if c = k then v else [c]) t)"
  by (induction t) auto

lemma concat_map_concat:
  "concat (map f (concat xss)) = concat (map (\<lambda>xs. concat (map f xs)) xss)"
  by (induction xss) auto

lemma concat_map_unchanged:
  "(\<And>x. x \<in> set xs \<Longrightarrow> f x = [x]) \<Longrightarrow> concat (map f xs) = xs"
  by (induction xs) auto

lemma foldl_replace:
  assumes "\<forall>(k, v) \<in> set R. (\<exists>c. k = [c] \<and> 256 \<le> c) \<and> (\<forall>x \<in> set v. x < (256::nat))"
  shows "foldl (\<lambda>t (k, v). replace k v t) t R
         = concat (map (\<lambda>c. case map_of R [c] of Some v \<Rightarrow> v | None \<Rightarrow> [c]) t)"
  using assms
proof (induction R arbitrary: t)
  case Nil
  then show ?case by (simp add: concat_map_unchanged)
next
  case (Cons kv R)
  obtain k v where kv: "kv = (k, v)" by (cases kv)
  from Cons.prems kv obtain a where k: "k = [a]" and v: "\<forall>x \<in> set v. x < 256"
    by auto
  have R: "\<forall>(k, v) \<in> set R. (\<exists>c. k = [c] \<and> 256 \<le> c) \<and> (\<forall>x \<in> set v. x < 256)"
    using Cons.prems by simp
  let ?look = "\<lambda>c. case map_of R [c] of Some v \<Rightarrow> v | None \<Rightarrow> [c]"
  have nokey: "\<And>x. x < 256 \<Longrightarrow> map_of R [x] = None"
  proof -
    fix x :: nat assume x: "x < 256"
    show "map_of R [x] = None"
    proof (cases "map_of R [x]")
      case None
      then show ?thesis .
    next
      case (Some w)
      then have "([x], w) \<in> set R" by (rule map_of_SomeD)
      with R have "256 \<le> x" by auto
      with x show ?thesis by simp
    qed
  qed
  have keep: "concat (map ?look v) = v"
    by (rule concat_map_unchanged) (use v nokey in auto)
  have "foldl (\<lambda>t (k, v). replace k v t) t (kv # R)
        = foldl (\<lambda>t (k, v). replace k v t) (replace [a] v t) R"
    by (simp add: kv k)
  also have "\<dots> = concat (map ?look (replace [a] v t))"
    using Cons.IH [OF R] .
  also have "\<dots> = concat (map (\<lambda>c. concat (map ?look (if c = a then v else [c]))) t)"
    by (simp only: replace_single concat_map_concat map_map comp_def)
  also have "\<dots> = concat (map (\<lambda>c. case map_of (kv # R) [c] of Some v \<Rightarrow> v | None \<Rightarrow> [c]) t)"
  proof -
    have "\<And>c. concat (map ?look (if c = a then v else [c]))
              = (case map_of (kv # R) [c] of Some v \<Rightarrow> v | None \<Rightarrow> [c])"
      using keep by (simp add: kv k)
    then show ?thesis by simp
  qed
  finally show ?case .
qed

lemma replacements_shape:
  "\<forall>(k, v) \<in> set replacements. (\<exists>c. k = [c] \<and> 256 \<le> c) \<and> (\<forall>x \<in> set v. x < (256::nat))"
  by (simp add: replacements_def ascii_def)

lemma clean_text_pointwise: "clean_text text = concat (map clean_char text)"
proof -
  let ?look = "\<lambda>c. case map_of replacements [c] of Some v \<Rightarrow> v | None \<Rightarrow> [c]"
  have "\<And>c. latin1_replace (?look c) = clean_char c"
  proof -
    fix c
    show "latin1_replace (?look c) = clean_char c"
    proof (cases "map_of replacements [c]")
      case None
      then show ?thesis by (simp add: latin1_replace_def clean_char_def)
    next
      case (Some v)
      then have "([c], v) \<in> set replacements" by (rule map_of_SomeD)
      with replacements_shape have "\<forall>x \<in> set v. x < 256" by auto
      then have "latin1_replace v = v" by (simp add: latin1_replace_def map_idI)
      with Some show ?thesis by (simp add: clean_char_def)
    qed
  qed
  then have "concat (map (\<lambda>c. latin1_replace (?look c)) text) = concat (map clean_char text)"
    by simp
  moreover have "clean_text text = concat (map (\<lambda>c. latin1_replace (?look c)) text)"
    unfolding clean_text_def foldl_replace [OF replacements_shape]
    by (simp add: latin1_replace_def map_concat comp_def)
  ultimately show ?thesis by simp
qed

lemma str_in_concat_map:
  assumes "c \<in> set t"
  shows "str_in (f c) (concat (map f t))"
proof -
  from assms obtain u w where "t = u @ c # w" by (auto simp: in_set_conv_decomp)
  then have "concat (map f t) = concat (map f u) @ f c @ concat (map f w)" by simp
  then show ?thesis unfolding str_in_iff by blast
qed

lemma clean_char_latin1: "\<forall>x \<in> set (clean_char c). x < 256"
proof (cases "map_of replacements [c]")
  case None
  then show ?thesis by (simp add: clean_char_def)
next
  case (Some v)
  then have "([c], v) \<in> set replacements" by (rule map_of_SomeD)
  with replacements_shape have "\<forall>x \<in> set v. x < 256" by auto
  with Some show ?thesis by (simp add: clean_char_def)
qed

text \<open>
  C7. \<open>clean_text\<close> is a total function, so it raises on no input. Its result is the
  input with every code point sanitized on its own; it holds Latin-1 code points only;
  it holds \<open>Rs.\<close> when the input holds the rupee sign, a straight single or double
  quote when the input holds a curly one, a hyphen when the input holds an em-dash; and
  a code point beyond Latin-1 that has no substitute becomes a question mark.
\<close>

theorem C7_clean_text:
  "clean_text text = concat (map clean_char text)
   \<and> (\<forall>c \<in> set (clean_text text). c < 256)
   \<and> (0x20B9 \<in> set text \<longrightarrow> str_in (ascii ''Rs.'') (clean_text text))
   \<and> (0x2018 \<in> set text \<or> 0x2019 \<in> set text \<longrightarrow> str_in [0x27] (clean_text text))
   \<and> (0x201C \<in> set text \<or> 0x201D \<in> set text \<longrightarrow> str_in [0x22] (clean_text text))
   \<and> (0x2014 \<in> set text \<longrightarrow> str_in (ascii ''-'') (clean_text text))
   \<and> (256 \<le> c \<and> map_of replacements [c] = None \<longrightarrow>
        clean_text (pre @ c # post) = clean_text pre @ [0x3F] @ clean_text post)"
proof -
  have rupee: "clean_char 0x20B9 = ascii ''Rs.''"
    and q1: "clean_char 0x2018 = [0x27]" and q2: "clean_char 0x2019 = [0x27]"
    and q3: "clean_char 0x201C = [0x22]" and q4: "clean_char 0x201D = [0x22]"
    and dash: "clean_char 0x2014 = ascii ''-''"
    by (simp_all add: clean_char_def replacements_def)
  have a: "\<forall>c \<in> set (clean_text text). c < 256"
    unfolding clean_text_pointwise using clean_char_latin1 by auto
  have b: "0x20B9 \<in> set text \<longrightarrow> str_in (ascii ''Rs.'') (clean_text text)"
    unfolding clean_text_pointwise using str_in_concat_map [of "0x20B9" "text" clean_char]
    by (simp add: rupee)
  have c: "0x2018 \<in> set text \<or> 0x2019 \<in> set text \<longrightarrow> str_in [0x27] (clean_text text)"
    unfolding clean_text_pointwise
    using str_in_concat_map [of "0x2018" "text" clean_char]
      str_in_concat_map [of "0x2019" "text" clean_char]
    by (auto simp: q1 q2)
  have d: "0x201C \<in> set text \<or> 0x201D \<in> set text \<longrightarrow> str_in [0x22] (clean_text text)"
    unfolding clean_text_pointwise
    using str_in_concat_map [of "0x201C" "text" clean_char]
      str_in_concat_map [of "0x201D" "text" clean_char]
    by (auto simp: q3 q4)
  have e: "0x2014 \<in> set text \<longrightarrow> str_in (ascii ''-'') (clean_text text)"
    unfolding clean_text_pointwise using str_in_concat_map [of "0x2014" "text" clean_char]
    by (simp add: dash)
  have f: "256 \<le> c \<and> map_of replacements [c] = None \<longrightarrow>
        clean_text (pre @ c # post) = clean_text pre @ [0x3F] @ clean_text post"
    unfolding clean_text_pointwise by (simp add: clean_char_def)
  from clean_text_pointwise a b c d e f show ?thesis by blast
qed

theorem C7_clean_text_witness:
  "0x20B9 \<in> set [0x20B9, 0x31, 0x2014, 0x201C, 0x2019, 0x4E2D, 0xE9 :: nat]
   \<and> 0x2019 \<in> set [0x20B9, 0x31, 0x2014, 0x201C, 0x2019, 0x4E2D, 0xE9 :: nat]
   \<and> 0x201C \<in> set [0x20B9, 0x31, 0x2014, 0x201C, 0x2019, 0x4E2D, 0xE9 :: nat]
   \<and> 0x2014 \<in> set [0x20B9, 0x31, 0x2014, 0x201C, 0x2019, 0x4E2D, 0xE9 :: nat]
   \<and> (256::nat) \<le> 0x4E2D \<and> map_of replacements [0x4E2D] = None
   \<and> str_in (ascii ''Rs.'') (clean_text [0x20B9, 0x31, 0x2014, 0x201C, 0x2019, 0x4E2D, 0xE9])
   \<and> str_in [0x27] (clean_text [0x20B9, 0x31, 0x2014, 0x201C, 0x2019, 0x4E2D, 0xE9])
   \<and> str_in [0x22] (clean_text [0x20B9, 0x31, 0x2014, 0x201C, 0x2019, 0x4E2D, 0xE9])
   \<and> str_in (ascii ''-'') (clean_text [0x20B9, 0x31, 0x2014, 0x201C, 0x2019, 0x4E2D, 0xE9])
   \<and> clean_text [0x20B9, 0x31, 0x2014, 0x201C, 0x2019, 0x4E2D, 0xE9]
       = ascii ''Rs.1-'' @ [0x22, 0x27, 0x3F, 0xE9]"
proof -
  let ?t = "[0x20B9, 0x31, 0x2014, 0x201C, 0x2019, 0x4E2D, 0xE9 :: nat]"
  note t = C7_clean_text [of ?t "0x4E2D" "[0x20B9, 0x31, 0x2014, 0x201C, 0x2019]" "[0xE9]"]
  have h1: "0x20B9 \<in> set ?t" and h2: "0x2019 \<in> set ?t" and h3: "0x201C \<in> set ?t"
    and h4: "0x2014 \<in> set ?t" by simp_all
  have h5: "(256::nat) \<le> 0x4E2D \<and> map_of replacements [0x4E2D] = None"
    by (simp add: replacements_def)
  have c1: "str_in (ascii ''Rs.'') (clean_text ?t)" using t h1 by blast
  have c2: "str_in [0x27] (clean_text ?t)" using t h2 by blast
  have c3: "str_in [0x22] (clean_text ?t)" using t h3 by blast
  have c4: "str_in (ascii ''-'') (clean_text ?t)" using t h4 by blast
  have "clean_text ?t = concat (map clean_char ?t)" using t by blast
  also have "\<dots> = ascii ''Rs.1-'' @ [0x22, 0x27, 0x3F, 0xE9]"
    by (simp add: clean_char_def replacements_def ascii_def)
  finally have c5: "clean_text ?t = ascii ''Rs.1-'' @ [0x22, 0x27, 0x3F, 0xE9]" .
  from h1 h2 h3 h4 h5 c1 c2 c3 c4 c5 show ?thesis by blast
qed

section \<open>The temporary file\<close>

text \<open>
  C6. As stated the claim fails: when the hand-off raises, the file that was created is
  still there afterwards.
\<close>

theorem C6_handoff_fails_counterexample:
  "offer_download {} ''/tmp/tmpab12.pdf'' (Inr ()) (Inl (IOError ''download''))
     = ({''/tmp/tmpab12.pdf''}, Inl (IOError ''download''))"
  by (simp add: offer_download_def create_pdf_def)

text \<open>
  C6, amended. When the document was written and the hand-off completed, the temporary
  file is gone after the run of lines 444 to 453, and every other temporary file is as
  before.
\<close>

theorem C6_deleted_after_handoff:
  assumes "output = Inr ()" and "handoff = Inr ()"
  shows "fresh \<notin> fst (offer_download files fresh output handoff)
       \<and> fst (offer_download files fresh output handoff) = files - {fresh}
       \<and> snd (offer_download files fresh output handoff) = Inr ()"
  using assms by (auto simp: offer_download_def create_pdf_def)

theorem C6_deleted_after_handoff_witness:
  "(Inr () :: error + unit) = Inr ()
   \<and> ''/tmp/tmpab12.pdf''
       \<notin> fst (offer_download {''/tmp/other.pdf''} ''/tmp/tmpab12.pdf'' (Inr ()) (Inr ()))
   \<and> fst (offer_download {''/tmp/other.pdf''} ''/tmp/tmpab12.pdf'' (Inr ()) (Inr ()))
       = {''/tmp/other.pdf''}"
  using C6_deleted_after_handoff
    [of "Inr ()" "Inr ()" "''/tmp/tmpab12.pdf''" "{''/tmp/other.pdf''}"]
  by simp

end
